theory Spec2Isabelle
  imports Complex_Main "HOL-Library.Multiset"
begin

section \<open>Data model\<close>

text \<open>
  The token list component (\<^verbatim>\<open>TokenEventsList\<close>, in \<^verbatim>\<open>src/unnamed/part_001\<close>; two
  earlier variants of the same component are \<^verbatim>\<open>part_000\<close> and \<^verbatim>\<open>part_002\<close>) filters,
  sorts and caps a list of tokens, keeps a set of expanded token addresses, and
  estimates the height of each row of a virtual list.

  JavaScript numbers are modelled as \<^typ>\<open>real\<close> (no NaN, no infinities, no rounding);
  the result cap, which only reaches \<^verbatim>\<open>Array.prototype.slice\<close>, is an \<^typ>\<open>int\<close>.
  Strings are \<^typ>\<open>string\<close>. The host's \<^verbatim>\<open>String.prototype.toLowerCase\<close> is a
  parameter of the search, of the filter callback and of the pipeline, so that every
  statement about them holds for the host's case folding, whatever it does to each text.
\<close>

text \<open>
  Modelled from the spec: the declaration of the type \<^verbatim>\<open>Token\<close> (\<^verbatim>\<open>../types\<close>) is not
  among the sources. The record holds the fields that the component reads. The five
  optional text fields are \<^typ>\<open>string option\<close>, \<^term>\<open>None\<close> being \<^verbatim>\<open>undefined\<close> or
  \<^verbatim>\<open>null\<close>; the risk level is kept as the string that the code compares.
\<close>

record Token =
  tokenName :: string
  tokenSymbol :: string
  tokenAddress :: string
  tokenAgeHours :: real
  gpHolderCount :: real
  hpLiquidityAmount :: real
  riskLevel :: string
  hpIsHoneypot :: bool
  gpIsProxy :: bool
  gpIsMintable :: bool
  gpHasProxyCalls :: bool
  gpCannotBuy :: bool
  gpCannotSellAll :: bool
  gpTradingCooldown :: bool
  gpTransferPausable :: bool
  gpSlippageModifiable :: bool
  gpHiddenOwner :: bool
  gpTrustList :: "string option"
  gpOtherPotentialRisks :: "string option"
  gpHolders :: "string option"
  gpLpHolders :: "string option"
  gpDexInfo :: "string option"

text \<open>
  Modelled from the spec: the declaration of the type \<^verbatim>\<open>FilterState\<close> (\<^verbatim>\<open>../types\<close>) is
  not among the sources either. The fields are those of the object literal that
  \<^verbatim>\<open>getSavedFilters\<close> returns.
\<close>

record FilterState =
  minHolders :: real
  minLiquidity :: real
  hideHoneypots :: bool
  showOnlyHoneypots :: bool
  hideDanger :: bool
  hideWarning :: bool
  showOnlySafe :: bool
  searchQuery :: string
  sortBy :: string
  sortDirection :: string
  maxRecords :: int
  hideStagnantHolders :: bool
  hideStagnantLiquidity :: bool
  stagnantRecordCount :: int

section \<open>The expansion set\<close>

text \<open>
  \<^verbatim>\<open>toggleTokenExpansion\<close> (part_001, lines 50-60; part_002, lines 15-25): the updater
  copies the previous set, deletes the address when it is a member and adds it otherwise.
\<close>

definition toggleTokenExpansion :: "string \<Rightarrow> string set \<Rightarrow> string set" where
  "toggleTokenExpansion addr prev =
     (if addr \<in> prev then prev - {addr} else insert addr prev)"

text \<open>
  The \<^verbatim>\<open>onClick\<close> handler of the expand-all / collapse-all button (part_001, lines
  414-425; part_002, lines 260-271). \<^verbatim>\<open>currentTokens\<close> is the value of
  \<^verbatim>\<open>filteredTokens()\<close>, \<^verbatim>\<open>prev\<close> the expansion set before the click.
\<close>

definition toggleAllExpansion :: "Token list \<Rightarrow> string set \<Rightarrow> string set" where
  "toggleAllExpansion currentTokens prev =
     (let hasExpanded = list_ex (\<lambda>token. tokenAddress token \<in> prev) currentTokens
      in if hasExpanded then {} else set (map tokenAddress currentTokens))"

section \<open>Strings\<close>

fun startsWith :: "string \<Rightarrow> string \<Rightarrow> bool" where
  "startsWith s [] = True"
| "startsWith [] (q # qs) = False"
| "startsWith (c # cs) (q # qs) = (c = q \<and> startsWith cs qs)"

text \<open>\<^verbatim>\<open>String.prototype.includes\<close>: the query occurs at some position of the string.\<close>

fun str_includes :: "string \<Rightarrow> string \<Rightarrow> bool" where
  "str_includes [] q = (q = [])"
| "str_includes (c # cs) q = (startsWith (c # cs) q \<or> str_includes cs q)"

definition endsWith :: "string \<Rightarrow> string \<Rightarrow> bool" where
  "endsWith s suf = (length suf \<le> length s \<and> drop (length s - length suf) s = suf)"

text \<open>
  \<^verbatim>\<open>String.prototype.replace\<close> with a string pattern: only the first occurrence of the
  pattern is replaced. (The replacement used by the component is the empty string, so
  the special replacement patterns of JavaScript do not arise.)
\<close>

fun str_replace :: "string \<Rightarrow> string \<Rightarrow> string \<Rightarrow> string" where
  "str_replace [] pat rep = (if pat = [] then rep else [])"
| "str_replace (c # cs) pat rep =
     (if startsWith (c # cs) pat then rep @ drop (length pat) (c # cs)
      else c # str_replace cs pat rep)"

section \<open>The pipeline: filter, sort, cap\<close>

text \<open>\<^verbatim>\<open>getRiskScore\<close> (part_001, lines 102-113).\<close>

definition getRiskScore :: "Token \<Rightarrow> real" where
  "getRiskScore token =
     (if riskLevel token = ''safe'' then 2
      else if riskLevel token = ''warning'' then 1
      else if riskLevel token = ''danger'' then 0
      else 0)"

text \<open>
  \<^verbatim>\<open>searchToken\<close>, as written out inside the filter callback (part_001, lines 137-142).
  \<open>toLowerCase\<close> is the host's \<^verbatim>\<open>String.prototype.toLowerCase\<close>.
\<close>

definition searchToken :: "(string \<Rightarrow> string) \<Rightarrow> Token \<Rightarrow> string \<Rightarrow> bool" where
  "searchToken toLowerCase token q =
     (let query = toLowerCase q
      in str_includes (toLowerCase (tokenName token)) query \<or>
         str_includes (toLowerCase (tokenSymbol token)) query \<or>
         str_includes (toLowerCase (tokenAddress token)) query)"

text \<open>
  The callback of \<^verbatim>\<open>result.filter\<close> (part_001, lines 122-146), one branch per
  \<^verbatim>\<open>return\<close> of the source, in the source's order.
\<close>

definition keepToken :: "(string \<Rightarrow> string) \<Rightarrow> FilterState \<Rightarrow> Token \<Rightarrow> bool" where
  "keepToken toLowerCase currentFilters token =
     (if hideHoneypots currentFilters \<and> hpIsHoneypot token then False
      else if showOnlyHoneypots currentFilters \<and> \<not> hpIsHoneypot token then False
      else if hideDanger currentFilters \<and> riskLevel token = ''danger'' then False
      else if hideWarning currentFilters \<and> riskLevel token = ''warning'' then False
      else if showOnlySafe currentFilters \<and> riskLevel token \<noteq> ''safe'' then False
      else if minHolders currentFilters > 0
              \<and> gpHolderCount token < minHolders currentFilters then False
      else if minLiquidity currentFilters > 0
              \<and> hpLiquidityAmount token < minLiquidity currentFilters then False
      else if searchQuery currentFilters \<noteq> []
           then searchToken toLowerCase token (searchQuery currentFilters)
      else True)"

text \<open>
  The comparator passed to \<^verbatim>\<open>result.sort\<close> (part_001, lines 149-176). The direction
  is \<open>-1\<close> unless the sort key ends with \<^verbatim>\<open>_asc\<close>; the field is the sort key with the
  first \<^verbatim>\<open>_asc\<close> removed in that case.
\<close>

definition sortDirectionOf :: "string \<Rightarrow> real" where
  "sortDirectionOf key = (if endsWith key ''_asc'' then 1 else - 1)"

definition sortFieldOf :: "string \<Rightarrow> string" where
  "sortFieldOf key = (if endsWith key ''_asc'' then str_replace key ''_asc'' [] else key)"

definition compareTokens :: "FilterState \<Rightarrow> Token \<Rightarrow> Token \<Rightarrow> real" where
  "compareTokens currentFilters a b =
     (let direction = sortDirectionOf (sortBy currentFilters);
          field = sortFieldOf (sortBy currentFilters)
      in if field = ''age'' then (tokenAgeHours b - tokenAgeHours a) * direction
         else if field = ''holders'' then (gpHolderCount a - gpHolderCount b) * direction
         else if field = ''liquidity'' then (hpLiquidityAmount a - hpLiquidityAmount b) * direction
         else if field = ''safetyScore'' then (getRiskScore a - getRiskScore b) * direction
         else 0)"

text \<open>
  The comparator of the earliest variant (part_000, lines 73-99) differs in the
  \<^verbatim>\<open>age\<close> case only: it subtracts in the order \<^verbatim>\<open>a - b\<close>.
\<close>

definition compareTokens_part000 :: "FilterState \<Rightarrow> Token \<Rightarrow> Token \<Rightarrow> real" where
  "compareTokens_part000 currentFilters a b =
     (let direction = sortDirectionOf (sortBy currentFilters);
          field = sortFieldOf (sortBy currentFilters)
      in if field = ''age'' then (tokenAgeHours a - tokenAgeHours b) * direction
         else if field = ''holders'' then (gpHolderCount a - gpHolderCount b) * direction
         else if field = ''liquidity'' then (hpLiquidityAmount a - hpLiquidityAmount b) * direction
         else if field = ''safetyScore'' then (getRiskScore a - getRiskScore b) * direction
         else 0)"

text \<open>
  \<^verbatim>\<open>Array.prototype.sort\<close> belongs to the host, not to the repository. ECMAScript
  requires it to be stable and, for a consistent comparator, to order \<open>a\<close> before \<open>b\<close>
  whenever the comparator is negative on \<open>(a, b)\<close>. The stable insertion sort below is
  the function so specified: an element is placed before the first later element that
  it does not exceed.
\<close>

fun insertBy :: "('a \<Rightarrow> 'a \<Rightarrow> real) \<Rightarrow> 'a \<Rightarrow> 'a list \<Rightarrow> 'a list" where
  "insertBy cmp x [] = [x]"
| "insertBy cmp x (y # ys) =
     (if cmp x y \<le> 0 then x # y # ys else y # insertBy cmp x ys)"

definition array_sort :: "('a \<Rightarrow> 'a \<Rightarrow> real) \<Rightarrow> 'a list \<Rightarrow> 'a list" where
  "array_sort cmp xs = foldr (insertBy cmp) xs []"

text \<open>
  \<^verbatim>\<open>Array.prototype.slice(0, end)\<close> for an integral \<open>end\<close>: a negative \<open>end\<close> counts
  from the end of the array, and the bounds are clamped to the array.
\<close>

definition array_slice0 :: "'a list \<Rightarrow> int \<Rightarrow> 'a list" where
  "array_slice0 xs e =
     (let len = int (length xs);
          final = (if e < 0 then max (len + e) 0 else min e len)
      in take (nat final) xs)"

text \<open>
  The three stages of the memo \<^verbatim>\<open>filteredTokens\<close> (part_001, lines 116-180); the
  first argument of the filter stage and of the pipeline is the host's case folding.
\<close>

definition filterStage ::
  "(string \<Rightarrow> string) \<Rightarrow> FilterState \<Rightarrow> Token list \<Rightarrow> Token list" where
  "filterStage toLowerCase currentFilters tokens =
     filter (keepToken toLowerCase currentFilters) tokens"

definition sortStage :: "FilterState \<Rightarrow> Token list \<Rightarrow> Token list" where
  "sortStage currentFilters result = array_sort (compareTokens currentFilters) result"

definition filteredTokens ::
  "(string \<Rightarrow> string) \<Rightarrow> Token list \<Rightarrow> FilterState \<Rightarrow> Token list" where
  "filteredTokens toLowerCase tokens currentFilters =
     array_slice0 (sortStage currentFilters (filterStage toLowerCase currentFilters tokens))
       (maxRecords currentFilters)"

section \<open>The size estimator\<close>

text \<open>JavaScript truthiness of an optional string: defined and not empty.\<close>

definition truthy :: "string option \<Rightarrow> bool" where
  "truthy v = (case v of None \<Rightarrow> False | Some s \<Rightarrow> s \<noteq> [])"

definition flag :: "bool \<Rightarrow> nat" where
  "flag b = (if b then 1 else 0)"

definition warningCount :: "Token \<Rightarrow> nat" where
  "warningCount token =
     flag (gpIsProxy token) + flag (gpIsMintable token) + flag (gpHasProxyCalls token) +
     flag (gpCannotBuy token) + flag (gpCannotSellAll token) + flag (gpTradingCooldown token) +
     flag (gpTransferPausable token) + flag (gpSlippageModifiable token) +
     flag (gpHiddenOwner token)"

text \<open>
  The expanded branch of \<^verbatim>\<open>estimateSize\<close> (part_001, lines 194-244), with the additions
  in the order of the source.
\<close>

definition expandedHeight :: "Token \<Rightarrow> nat" where
  "expandedHeight token =
     (let height = 0;
          height = height + 40;
          height = height + 60;
          height = height + 60;
          height = (if warningCount token > 0 then height + (80 + warningCount token * 24)
                    else height);
          height = height + 300;
          height = height + 400;
          height = height + 200;
          height = height + 300;
          height = height + 200;
          height = (if truthy (gpTrustList token) then height + 40 else height);
          height = (if truthy (gpOtherPotentialRisks token) then height + 40 else height);
          height = (if truthy (gpHolders token) then height + 40 else height);
          height = (if truthy (gpLpHolders token) then height + 40 else height);
          height = (if truthy (gpDexInfo token) then height + 40 else height);
          height = height + 40;
          height = height + 40;
          height = height + 200;
          height = height + 40;
          height = height + 200;
          height = height + 40;
          height = height + 40;
          height = height + 200;
          height = height + 40;
          height = height + 60;
          height = height + 40
      in height)"

text \<open>
  \<^verbatim>\<open>estimateSize\<close> (part_001, lines 185-245). \<^verbatim>\<open>current\<close> is the value of
  \<^verbatim>\<open>filteredTokens()\<close> and \<^verbatim>\<open>expanded\<close> that of \<^verbatim>\<open>expandedTokens()\<close>; an index past
  the end reads \<^verbatim>\<open>undefined\<close> and the estimate is 60.
\<close>

definition estimateSize :: "Token list \<Rightarrow> string set \<Rightarrow> nat \<Rightarrow> nat" where
  "estimateSize current expanded index =
     (if \<not> index < length current then 60
      else let token = current ! index
           in if tokenAddress token \<notin> expanded then 84 else expandedHeight token)"

section \<open>Loading the saved filters\<close>

text \<open>The object literal at the end of \<^verbatim>\<open>getSavedFilters\<close> (part_001, lines 72-87).\<close>

definition defaultFilters :: FilterState where
  "defaultFilters =
     \<lparr> minHolders = 0, minLiquidity = 0, hideHoneypots = False, showOnlyHoneypots = False,
       hideDanger = False, hideWarning = False, showOnlySafe = False, searchQuery = [],
       sortBy = ''age'', sortDirection = ''desc'', maxRecords = 50,
       hideStagnantHolders = False, hideStagnantLiquidity = False,
       stagnantRecordCount = 10 \<rparr>"

text \<open>
  What \<^verbatim>\<open>getSavedFilters\<close> returns: the value that \<^verbatim>\<open>JSON.parse\<close> produced, as it is,
  or the default object.
\<close>

datatype 'j loaded = Parsed 'j | Defaults FilterState

text \<open>
  \<^verbatim>\<open>getSavedFilters\<close> (part_001, lines 63-88). \<^verbatim>\<open>JSON.parse\<close> belongs to the host and
  is a parameter: it returns \<^term>\<open>None\<close> where the host function throws. \<^verbatim>\<open>saved\<close> is
  the result of \<^verbatim>\<open>localStorage.getItem\<close>, \<^term>\<open>None\<close> being \<^verbatim>\<open>null\<close>; the test
  \<^verbatim>\<open>if (saved)\<close> fails on \<^verbatim>\<open>null\<close> and on the empty string.
\<close>

definition getSavedFilters :: "(string \<Rightarrow> 'j option) \<Rightarrow> string option \<Rightarrow> 'j loaded" where
  "getSavedFilters JSON_parse saved =
     (case saved of
        None \<Rightarrow> Defaults defaultFilters
      | Some s \<Rightarrow>
          if s \<noteq> [] then
            (case JSON_parse s of
               Some v \<Rightarrow> Parsed v
             | None \<Rightarrow> Defaults defaultFilters)
          else Defaults defaultFilters)"

text \<open>
  The values of the host's \<^verbatim>\<open>JSON.parse\<close>. A finite table from texts to values stands
  for the parser on the texts listed in it.
\<close>

datatype json =
    JNull
  | JBool bool
  | JNumber real
  | JString string
  | JArray "json list"
  | JObject "(string \<times> json) list"

section \<open>Auxiliary notions and sample data\<close>

text \<open>
  Every case of the comparator is a difference of one number per token; \<open>sortKey\<close> is
  that number.
\<close>

definition sortKey :: "FilterState \<Rightarrow> Token \<Rightarrow> real" where
  "sortKey f t =
     (let direction = sortDirectionOf (sortBy f); field = sortFieldOf (sortBy f)
      in if field = ''age'' then - tokenAgeHours t * direction
         else if field = ''holders'' then gpHolderCount t * direction
         else if field = ''liquidity'' then hpLiquidityAmount t * direction
         else if field = ''safetyScore'' then getRiskScore t * direction
         else 0)"

text \<open>The nine risk flags and the five optional fields that \<^verbatim>\<open>estimateSize\<close> reads.\<close>

definition riskFlags :: "Token \<Rightarrow> bool list" where
  "riskFlags t =
     [gpIsProxy t, gpIsMintable t, gpHasProxyCalls t, gpCannotBuy t, gpCannotSellAll t,
      gpTradingCooldown t, gpTransferPausable t, gpSlippageModifiable t, gpHiddenOwner t]"

definition optionalFields :: "Token \<Rightarrow> string option list" where
  "optionalFields t =
     [gpTrustList t, gpOtherPotentialRisks t, gpHolders t, gpLpHolders t, gpDexInfo t]"

text \<open>
  The case folding used with the sample data, all of which is ASCII text: on such a text
  the host's \<^verbatim>\<open>toLowerCase\<close> moves the letters A-Z to a-z and changes nothing else.
  It stands for the host function on the sample texts only; no general statement
  depends on it.
\<close>

definition lowerChar :: "char \<Rightarrow> char" where
  "lowerChar c =
     (let n = (of_char c :: nat) in if 65 \<le> n \<and> n \<le> 90 then char_of (n + 32) else c)"

definition asciiLowerCase :: "string \<Rightarrow> string" where
  "asciiLowerCase s = map lowerChar s"

text \<open>
  A token for the scenarios: name, symbol and address are the given string, the age and
  the honeypot flag are given, the risk level is \<^verbatim>\<open>safe\<close>, and nothing else is set.
\<close>

definition sampleToken :: "string \<Rightarrow> real \<Rightarrow> bool \<Rightarrow> Token" where
  "sampleToken a age hp =
     \<lparr> tokenName = a, tokenSymbol = a, tokenAddress = a, tokenAgeHours = age,
       gpHolderCount = 0, hpLiquidityAmount = 0, riskLevel = ''safe'', hpIsHoneypot = hp,
       gpIsProxy = False, gpIsMintable = False, gpHasProxyCalls = False,
       gpCannotBuy = False, gpCannotSellAll = False, gpTradingCooldown = False,
       gpTransferPausable = False, gpSlippageModifiable = False, gpHiddenOwner = False,
       gpTrustList = None, gpOtherPotentialRisks = None, gpHolders = None,
       gpLpHolders = None, gpDexInfo = None \<rparr>"

section \<open>Properties of the host functions as modelled\<close>

lemma mset_insertBy: "mset (insertBy cmp x ys) = add_mset x (mset ys)"
  by (induction ys) simp_all

lemma set_insertBy: "set (insertBy cmp x ys) = insert x (set ys)"
  by (induction ys) auto

lemma mset_array_sort: "mset (array_sort cmp xs) = mset xs"
  by (induction xs) (simp_all add: array_sort_def mset_insertBy)

lemma set_array_sort: "set (array_sort cmp xs) = set xs"
  using mset_array_sort [of cmp xs] by (metis set_mset_mset)

lemma length_array_sort: "length (array_sort cmp xs) = length xs"
  using mset_array_sort [of cmp xs] by (metis size_mset)

lemma sorted_insertBy:
  assumes total: "\<And>a b. cmp a b \<le> 0 \<or> cmp b a \<le> 0"
      and trans: "\<And>a b c. cmp a b \<le> 0 \<Longrightarrow> cmp b c \<le> 0 \<Longrightarrow> cmp a c \<le> 0"
  shows "sorted_wrt (\<lambda>a b. cmp a b \<le> 0) ys
         \<Longrightarrow> sorted_wrt (\<lambda>a b. cmp a b \<le> 0) (insertBy cmp x ys)"
proof (induction ys)
  case Nil
  then show ?case by simp
next
  case (Cons y ys)
  show ?case
  proof (cases "cmp x y \<le> 0")
    case True
    with Cons.prems trans show ?thesis by auto
  next
    case False
    with total have "cmp y x \<le> 0" by blast
    with False Cons show ?thesis by (auto simp: set_insertBy)
  qed
qed

lemma sorted_array_sort:
  assumes total: "\<And>a b. cmp a b \<le> 0 \<or> cmp b a \<le> 0"
      and trans: "\<And>a b c. cmp a b \<le> 0 \<Longrightarrow> cmp b c \<le> 0 \<Longrightarrow> cmp a c \<le> 0"
  shows "sorted_wrt (\<lambda>a b. cmp a b \<le> 0) (array_sort cmp xs)"
proof (induction xs)
  case Nil
  show ?case by (simp add: array_sort_def)
next
  case (Cons x xs)
  have "array_sort cmp (x # xs) = insertBy cmp x (array_sort cmp xs)"
    by (simp add: array_sort_def)
  with Cons sorted_insertBy [of cmp, OF total trans] show ?case by simp
qed

text \<open>A comparator that never asks for a swap leaves the array as it is.\<close>

lemma array_sort_noop:
  assumes "\<And>a b. cmp a b \<le> 0"
  shows "array_sort cmp xs = xs"
proof (induction xs)
  case Nil
  show ?case by (simp add: array_sort_def)
next
  case (Cons x xs)
  have "array_sort cmp (x # xs) = insertBy cmp x xs"
    using Cons by (simp add: array_sort_def)
  also have "\<dots> = x # xs" using assms by (cases xs) simp_all
  finally show ?case .
qed

lemma array_slice0_nonneg: "0 \<le> e \<Longrightarrow> array_slice0 xs e = take (nat e) xs"
  by (simp add: array_slice0_def Let_def min_def)

lemma array_slice0_neg:
  "e < 0 \<Longrightarrow> array_slice0 xs e = take (length xs - nat (- e)) xs"
  by (auto simp: array_slice0_def Let_def max_def intro: arg_cong [where f = "\<lambda>n. take n xs"])

lemma startsWith_append: "startsWith s pat \<Longrightarrow> s = pat @ drop (length pat) s"
  by (induction s pat rule: startsWith.induct) simp_all

lemma startsWith_self: "startsWith (pat @ s) pat"
  by (induction pat) simp_all

lemma endsWith_iff: "endsWith s suf \<longleftrightarrow> (\<exists>u. s = u @ suf)"
  unfolding endsWith_def
proof
  assume a: "length suf \<le> length s \<and> drop (length s - length suf) s = suf"
  then have "s = take (length s - length suf) s @ suf"
    by (metis append_take_drop_id)
  then show "\<exists>u. s = u @ suf" ..
next
  assume "\<exists>u. s = u @ suf"
  then show "length suf \<le> length s \<and> drop (length s - length suf) s = suf" by auto
qed

text \<open>
  Removing the first occurrence of a pattern from a string that ends with the pattern
  cuts the string in two around an occurrence.
\<close>

lemma str_replace_suffix:
  "s = u @ pat \<Longrightarrow> \<exists>pre post. s = pre @ pat @ post \<and> str_replace s pat [] = pre @ post"
proof (induction s arbitrary: u)
  case Nil
  then show ?case by simp
next
  case (Cons c cs)
  show ?case
  proof (cases "startsWith (c # cs) pat")
    case True
    then have "c # cs = [] @ pat @ drop (length pat) (c # cs)"
      using startsWith_append by fastforce
    moreover have "str_replace (c # cs) pat [] = [] @ drop (length pat) (c # cs)"
      using True by simp
    ultimately show ?thesis by blast
  next
    case False
    have "u \<noteq> []"
    proof
      assume "u = []"
      with Cons.prems have "c # cs = pat @ []" by simp
      then have "startsWith (c # cs) pat" using startsWith_self [of pat "[]"] by simp
      with False show False by simp
    qed
    then obtain u' where u: "u = c # u'" using Cons.prems by (cases u) auto
    with Cons.prems have "cs = u' @ pat" by simp
    from Cons.IH [OF this] obtain pre post where
      "cs = pre @ pat @ post" "str_replace cs pat [] = pre @ post" by blast
    then have "c # cs = (c # pre) @ pat @ post
               \<and> str_replace (c # cs) pat [] = (c # pre) @ post"
      using False by simp
    then show ?thesis by blast
  qed
qed

section \<open>Properties of the comparator\<close>

lemma compareTokens_key: "compareTokens f a b = sortKey f a - sortKey f b"
  by (simp add: compareTokens_def sortKey_def Let_def algebra_simps)

lemma sorted_sortStage:
  "sorted_wrt (\<lambda>a b. compareTokens f a b \<le> 0) (sortStage f xs)"
  unfolding sortStage_def
  by (rule sorted_array_sort) (auto simp: compareTokens_key)

text \<open>
  A sort key whose field is one of the four names (none of which ends with the letter
  c) is that name, alone or followed by \<^verbatim>\<open>_asc\<close>.
\<close>

lemma sortFieldOf_recognised:
  assumes "sortFieldOf key = r" "r \<noteq> []" "last r \<noteq> CHR ''c''"
  shows "key = r \<or> key = r @ ''_asc''"
proof (cases "endsWith key ''_asc''")
  case False
  with assms show ?thesis by (simp add: sortFieldOf_def)
next
  case True
  then obtain u where u: "key = u @ ''_asc''" using endsWith_iff by blast
  from str_replace_suffix [OF u] obtain pre post where
    pp: "key = pre @ ''_asc'' @ post" "str_replace key ''_asc'' [] = pre @ post" by blast
  with assms True have r: "r = pre @ post" by (simp add: sortFieldOf_def)
  have "post = []"
  proof (rule ccontr)
    assume ne: "post \<noteq> []"
    then have "last key = last post" using pp(1) by simp
    moreover have "last r = last post" using r ne by simp
    moreover have "last key = CHR ''c''" using u by simp
    ultimately show False using assms(3) by simp
  qed
  with pp r show ?thesis by simp
qed

lemma sortFieldOf_unrecognised:
  assumes "sortBy f \<notin> {''age'', ''age_asc'', ''holders'', ''holders_asc'', ''liquidity'',
                          ''liquidity_asc'', ''safetyScore'', ''safetyScore_asc''}"
  shows "sortFieldOf (sortBy f) \<notin> {''age'', ''holders'', ''liquidity'', ''safetyScore''}"
  using assms sortFieldOf_recognised [of "sortBy f" "''age''"]
    sortFieldOf_recognised [of "sortBy f" "''holders''"]
    sortFieldOf_recognised [of "sortBy f" "''liquidity''"]
    sortFieldOf_recognised [of "sortBy f" "''safetyScore''"]
  by auto

lemma sample_filtered:
  "filteredTokens asciiLowerCase [sampleToken ''0xa'' 1 False, sampleToken ''0xb'' 2 True]
     (defaultFilters\<lparr>hideHoneypots := True\<rparr>) = [sampleToken ''0xa'' 1 False]"
  by (simp add: filteredTokens_def filterStage_def sortStage_def keepToken_def
      defaultFilters_def sampleToken_def array_sort_def array_slice0_def)

section \<open>The expansion set: toggle, expand all, collapse all\<close>

text \<open>
  Claim C10. Toggling the same address twice gives back the expansion set; one toggle
  flips the membership of that address and of no other. The operation takes the address
  and the set only, so nothing is checked against the tokens on display.
\<close>

theorem toggleTokenExpansion_involution:
  "toggleTokenExpansion a (toggleTokenExpansion a s) = s
   \<and> (a \<in> toggleTokenExpansion a s \<longleftrightarrow> a \<notin> s)
   \<and> (\<forall>b. b \<noteq> a \<longrightarrow> (b \<in> toggleTokenExpansion a s \<longleftrightarrow> b \<in> s))"
  by (auto simp: toggleTokenExpansion_def)

theorem toggleTokenExpansion_involution_witness:
  "toggleTokenExpansion ''0xa'' (toggleTokenExpansion ''0xa'' {''0xb''}) = {''0xb''}
   \<and> toggleTokenExpansion ''0xa'' {''0xb''} = {''0xa'', ''0xb''}
   \<and> toggleTokenExpansion ''0xb'' {''0xa'', ''0xb''} = {''0xa''}
   \<and> ''0xb'' \<noteq> ''0xa''
   \<and> (''0xb'' \<in> toggleTokenExpansion ''0xa'' {''0xb''} \<longleftrightarrow> ''0xb'' \<in> {''0xb''})"
  using toggleTokenExpansion_involution [of "''0xa''" "{''0xb''}"]
  by (auto simp: toggleTokenExpansion_def)

text \<open>
  Claim C5. The expand-all / collapse-all button looks for an expanded address among
  the tokens of the filtered sequence. If there is one, the new expansion set is empty;
  if there is none, the new expansion set is exactly the set of addresses of the
  filtered sequence.
\<close>

theorem toggleAllExpansion_spec:
  "toggleAllExpansion currentTokens prev =
     (if \<exists>t \<in> set currentTokens. tokenAddress t \<in> prev then {}
      else tokenAddress ` set currentTokens)"
  by (simp add: toggleAllExpansion_def list_ex_iff)

text \<open>
  Two tokens, of which the filter hides the second. With both expanded, the click
  empties the set (the hidden one is cleared too); with none expanded, the click expands
  the visible one only.
\<close>

theorem toggleAllExpansion_spec_witness:
  "toggleAllExpansion
     (filteredTokens asciiLowerCase [sampleToken ''0xa'' 1 False, sampleToken ''0xb'' 2 True]
        (defaultFilters\<lparr>hideHoneypots := True\<rparr>)) {''0xa'', ''0xb''} = {}
   \<and> toggleAllExpansion
     (filteredTokens asciiLowerCase [sampleToken ''0xa'' 1 False, sampleToken ''0xb'' 2 True]
        (defaultFilters\<lparr>hideHoneypots := True\<rparr>)) {} = {''0xa''}"
  using toggleAllExpansion_spec
     [of "filteredTokens asciiLowerCase [sampleToken ''0xa'' 1 False, sampleToken ''0xb'' 2 True]
        (defaultFilters\<lparr>hideHoneypots := True\<rparr>)" "{''0xa'', ''0xb''}"]
    toggleAllExpansion_spec
     [of "filteredTokens asciiLowerCase [sampleToken ''0xa'' 1 False, sampleToken ''0xb'' 2 True]
        (defaultFilters\<lparr>hideHoneypots := True\<rparr>)" "{}"]
  by (simp add: sample_filtered) (simp add: sampleToken_def)

text \<open>
  Claim C4, as stated, fails. The token \<^verbatim>\<open>0xb\<close> is expanded and then filtered out; no
  token of the filtered sequence is expanded. After the click \<^verbatim>\<open>0xb\<close> is no longer in
  the expansion set: the handler builds a new set from the filtered sequence.
\<close>

theorem expandAll_frame_counterexample:
  "filteredTokens asciiLowerCase [sampleToken ''0xa'' 1 False, sampleToken ''0xb'' 2 True]
     (defaultFilters\<lparr>hideHoneypots := True\<rparr>) = [sampleToken ''0xa'' 1 False]
   \<and> tokenAddress (sampleToken ''0xa'' 1 False) \<notin> {''0xb''}
   \<and> ''0xb'' \<noteq> tokenAddress (sampleToken ''0xa'' 1 False)
   \<and> ''0xb'' \<in> {''0xb''}
   \<and> ''0xb'' \<notin> toggleAllExpansion
        (filteredTokens asciiLowerCase [sampleToken ''0xa'' 1 False, sampleToken ''0xb'' 2 True]
           (defaultFilters\<lparr>hideHoneypots := True\<rparr>)) {''0xb''}"
  by (simp add: sample_filtered) (simp add: sampleToken_def toggleAllExpansion_def)

text \<open>
  Claim C4, amended. When no address of the filtered sequence is expanded, the click
  leaves every address of the filtered sequence expanded and every other address not
  expanded: the new expansion set is exactly the set of addresses of the filtered
  sequence, and an address expanded earlier and filtered out since is dropped.
\<close>

theorem expandAll_exact:
  assumes "\<forall>t \<in> set currentTokens. tokenAddress t \<notin> prev"
  shows "(\<forall>t \<in> set currentTokens. tokenAddress t \<in> toggleAllExpansion currentTokens prev)
         \<and> (\<forall>a. a \<notin> tokenAddress ` set currentTokens
                \<longrightarrow> a \<notin> toggleAllExpansion currentTokens prev)
         \<and> toggleAllExpansion currentTokens prev = tokenAddress ` set currentTokens"
  using assms by (auto simp: toggleAllExpansion_def list_ex_iff)

theorem expandAll_exact_witness:
  "tokenAddress (sampleToken ''0xa'' 1 False) \<notin> {''0xb''}
   \<and> tokenAddress (sampleToken ''0xc'' 3 False) \<notin> {''0xb''}
   \<and> toggleAllExpansion [sampleToken ''0xa'' 1 False, sampleToken ''0xc'' 3 False] {''0xb''}
       = {''0xa'', ''0xc''}"
proof -
  have h: "\<forall>t \<in> set [sampleToken ''0xa'' 1 False, sampleToken ''0xc'' 3 False].
             tokenAddress t \<notin> {''0xb''}"
    by (simp add: sampleToken_def)
  from expandAll_exact [OF h] h show ?thesis
    by (simp add: sampleToken_def)
qed

section \<open>The size estimator\<close>

lemma count_true: "length (filter (\<lambda>b. b) bs) = sum_list (map flag bs)"
  by (induction bs) (simp_all add: flag_def)

lemma any_true: "0 < length (filter (\<lambda>b. b) bs) \<longleftrightarrow> True \<in> set bs"
  by (induction bs) auto

lemma warningCount_riskFlags: "warningCount t = length (filter (\<lambda>b. b) (riskFlags t))"
  by (simp only: count_true) (simp add: warningCount_def riskFlags_def)

lemma warningCount_pos: "0 < warningCount t \<longleftrightarrow> True \<in> set (riskFlags t)"
  by (simp only: warningCount_riskFlags any_true)

lemma count_present:
  "40 * length (filter truthy [a, b, c, d, e]) =
     (if truthy a then 40 else 0) + (if truthy b then 40 else 0) +
     (if truthy c then 40 else 0) + (if truthy d then 40 else 0) +
     (if truthy e then (40::nat) else 0)"
  by simp

text \<open>
  The fixed sections of the expanded layout add up to 2500; each present optional field
  adds 40; the warnings section adds 80 and 24 per true flag, when a flag is true.
\<close>

lemma expandedHeight_formula:
  "expandedHeight t =
     2500 + 40 * length (filter truthy (optionalFields t))
     + (if True \<in> set (riskFlags t)
        then 80 + 24 * length (filter (\<lambda>b. b) (riskFlags t)) else 0)"
proof -
  have "expandedHeight t = 2500
      + ((if truthy (gpTrustList t) then 40 else 0)
         + (if truthy (gpOtherPotentialRisks t) then 40 else 0)
         + (if truthy (gpHolders t) then 40 else 0)
         + (if truthy (gpLpHolders t) then 40 else 0)
         + (if truthy (gpDexInfo t) then 40 else 0))
      + (if 0 < warningCount t then 80 + 24 * warningCount t else 0)"
    by (simp add: expandedHeight_def)
  then show ?thesis
    by (simp only: optionalFields_def count_present warningCount_pos)
      (simp only: warningCount_riskFlags)
qed

text \<open>
  Claim C6. For a token of the filtered sequence, the estimate is the constant 84 when
  its address is not expanded. When it is expanded, the estimate is the sum of the fixed
  section heights (2500), plus 40 for each of the five optional fields that is present,
  plus, exactly when one of the nine risk flags is true, 80 and 24 times the number of
  true flags.
\<close>

theorem estimateSize_formula:
  assumes "index < length current"
  shows "estimateSize current expanded index =
     (if tokenAddress (current ! index) \<notin> expanded then 84
      else 2500 + 40 * length (filter truthy (optionalFields (current ! index)))
           + (if True \<in> set (riskFlags (current ! index))
              then 80 + 24 * length (filter (\<lambda>b. b) (riskFlags (current ! index)))
              else 0))"
  using assms by (simp add: estimateSize_def expandedHeight_formula Let_def)

text \<open>
  A mintable token with a hidden owner and DEX information: 2500 + 40 + 80 + 2 * 24
  when expanded, 84 when compact; a token with no flag and no optional field: 2500.
\<close>

theorem estimateSize_formula_witness:
  "(0::nat) < length [(sampleToken ''0xa'' 1 False)
        \<lparr>gpIsMintable := True, gpHiddenOwner := True, gpDexInfo := Some ''uniswap''\<rparr>]
   \<and> estimateSize [(sampleToken ''0xa'' 1 False)
        \<lparr>gpIsMintable := True, gpHiddenOwner := True, gpDexInfo := Some ''uniswap''\<rparr>]
        {''0xa''} 0 = 2668
   \<and> estimateSize [(sampleToken ''0xa'' 1 False)
        \<lparr>gpIsMintable := True, gpHiddenOwner := True, gpDexInfo := Some ''uniswap''\<rparr>]
        {} 0 = 84
   \<and> estimateSize [sampleToken ''0xa'' 1 False] {''0xa''} 0 = 2500"
  using estimateSize_formula [of 0 "[(sampleToken ''0xa'' 1 False)
        \<lparr>gpIsMintable := True, gpHiddenOwner := True, gpDexInfo := Some ''uniswap''\<rparr>]"
        "{''0xa''}"]
    estimateSize_formula [of 0 "[(sampleToken ''0xa'' 1 False)
        \<lparr>gpIsMintable := True, gpHiddenOwner := True, gpDexInfo := Some ''uniswap''\<rparr>]" "{}"]
    estimateSize_formula [of 0 "[sampleToken ''0xa'' 1 False]" "{''0xa''}"]
  by (simp add: sampleToken_def optionalFields_def riskFlags_def truthy_def)

section \<open>The filter stage\<close>

text \<open>\<open>str_includes\<close> is containment of the query as a contiguous substring.\<close>

lemma startsWith_iff: "startsWith s q \<longleftrightarrow> (\<exists>post. s = q @ post)"
  by (induction s q rule: startsWith.induct) auto

lemma str_includes_iff: "str_includes s q \<longleftrightarrow> (\<exists>pre post. s = pre @ q @ post)"
proof (induction s)
  case Nil
  show ?case by auto
next
  case (Cons c cs)
  show ?case
  proof
    assume "str_includes (c # cs) q"
    then consider "startsWith (c # cs) q" | "str_includes cs q" by auto
    then show "\<exists>pre post. c # cs = pre @ q @ post"
    proof cases
      case 1
      then obtain post where "c # cs = [] @ q @ post" using startsWith_iff by auto
      then show ?thesis by blast
    next
      case 2
      with Cons obtain pre post where "cs = pre @ q @ post" by blast
      then have "c # cs = (c # pre) @ q @ post" by simp
      then show ?thesis by blast
    qed
  next
    assume "\<exists>pre post. c # cs = pre @ q @ post"
    then obtain pre post where e: "c # cs = pre @ q @ post" by blast
    show "str_includes (c # cs) q"
    proof (cases pre)
      case Nil
      with e have "startsWith (c # cs) q" using startsWith_iff by auto
      then show ?thesis by simp
    next
      case (Cons p ps)
      with e have "cs = ps @ q @ post" by simp
      with Cons.IH have "str_includes cs q" by blast
      then show ?thesis by simp
    qed
  qed
qed

text \<open>The chain of early returns of the filter callback is a conjunction.\<close>

lemma keepToken_conj:
  "keepToken toLowerCase f t \<longleftrightarrow>
     \<not> (hideHoneypots f \<and> hpIsHoneypot t)
     \<and> \<not> (showOnlyHoneypots f \<and> \<not> hpIsHoneypot t)
     \<and> \<not> (hideDanger f \<and> riskLevel t = ''danger'')
     \<and> \<not> (hideWarning f \<and> riskLevel t = ''warning'')
     \<and> \<not> (showOnlySafe f \<and> riskLevel t \<noteq> ''safe'')
     \<and> \<not> (minHolders f > 0 \<and> gpHolderCount t < minHolders f)
     \<and> \<not> (minLiquidity f > 0 \<and> hpLiquidityAmount t < minLiquidity f)
     \<and> (searchQuery f = [] \<or> searchToken toLowerCase t (searchQuery f))"
  unfolding keepToken_def by (simp only: split: if_split) blast

text \<open>Sorting keeps the records, and a cap of at least the length cuts nothing.\<close>

lemma set_filteredTokens_uncut:
  assumes "int (length tokens) \<le> maxRecords f"
  shows "set (filteredTokens toLowerCase tokens f) = set (filterStage toLowerCase f tokens)"
proof -
  let ?S = "sortStage f (filterStage toLowerCase f tokens)"
  have "length ?S \<le> length tokens"
    by (simp add: sortStage_def length_array_sort filterStage_def)
  with assms have "0 \<le> maxRecords f" "length ?S \<le> nat (maxRecords f)"
    by linarith+
  then have "array_slice0 ?S (maxRecords f) = ?S"
    by (simp add: array_slice0_nonneg)
  then show ?thesis by (simp add: filteredTokens_def sortStage_def set_array_sort)
qed

text \<open>
  Claim C1, amended. With a non-empty search query, a record is in the result of the
  filter stage if and only if it is a record of the list, it passes every enabled
  toggle and threshold filter, and its name, symbol or address contains the query
  case-insensitively, that is, after the host's \<^verbatim>\<open>toLowerCase\<close> on both sides: the
  text match is one more condition, and the other filters still decide. The statement
  holds for every case folding \<open>toLowerCase\<close>, hence for the host's on every text. (Where the cap is at least the length of the list, the records of the
  pipeline's output are those of the filter stage.)
\<close>

theorem search_conjoined:
  assumes "searchQuery f \<noteq> []"
  shows "(t \<in> set (filterStage toLowerCase f tokens) \<longleftrightarrow>
          t \<in> set tokens
          \<and> \<not> (hideHoneypots f \<and> hpIsHoneypot t)
          \<and> \<not> (showOnlyHoneypots f \<and> \<not> hpIsHoneypot t)
          \<and> \<not> (hideDanger f \<and> riskLevel t = ''danger'')
          \<and> \<not> (hideWarning f \<and> riskLevel t = ''warning'')
          \<and> \<not> (showOnlySafe f \<and> riskLevel t \<noteq> ''safe'')
          \<and> \<not> (minHolders f > 0 \<and> gpHolderCount t < minHolders f)
          \<and> \<not> (minLiquidity f > 0 \<and> hpLiquidityAmount t < minLiquidity f)
          \<and> (str_includes (toLowerCase (tokenName t)) (toLowerCase (searchQuery f))
             \<or> str_includes (toLowerCase (tokenSymbol t)) (toLowerCase (searchQuery f))
             \<or> str_includes (toLowerCase (tokenAddress t)) (toLowerCase (searchQuery f))))
       \<and> (int (length tokens) \<le> maxRecords f
          \<longrightarrow> set (filteredTokens toLowerCase tokens f)
                = set (filterStage toLowerCase f tokens))"
  using assms set_filteredTokens_uncut [of tokens f toLowerCase]
  by (simp add: filterStage_def keepToken_conj searchToken_def Let_def)

lemma lower_0xB: "asciiLowerCase ''0xB'' = ''0xb''"
  by code_simp

text \<open>
  Claim C1, as stated, fails. With hide-honeypots on and the query \<^verbatim>\<open>0xb\<close>, a honeypot
  whose address \<^verbatim>\<open>0xB\<close> contains the query is a record of the list that matches the
  text and is not in the filter result: the honeypot test returns before the search is
  looked at.
\<close>

theorem search_override_counterexample:
  "searchQuery (defaultFilters\<lparr>hideHoneypots := True, searchQuery := ''0xb''\<rparr>) \<noteq> []
   \<and> sampleToken ''0xB'' 2 True \<in> set [sampleToken ''0xB'' 2 True]
   \<and> str_includes (asciiLowerCase (tokenAddress (sampleToken ''0xB'' 2 True)))
        (asciiLowerCase (searchQuery
           (defaultFilters\<lparr>hideHoneypots := True, searchQuery := ''0xb''\<rparr>)))
   \<and> sampleToken ''0xB'' 2 True
        \<notin> set (filterStage asciiLowerCase (defaultFilters\<lparr>hideHoneypots := True, searchQuery := ''0xb''\<rparr>)
                 [sampleToken ''0xB'' 2 True])
   \<and> filteredTokens asciiLowerCase [sampleToken ''0xB'' 2 True]
        (defaultFilters\<lparr>hideHoneypots := True, searchQuery := ''0xb''\<rparr>) = []"
proof -
  have l: "asciiLowerCase ''0xb'' = ''0xb''" by code_simp
  show ?thesis
    by (simp add: filteredTokens_def filterStage_def sortStage_def keepToken_def
      defaultFilters_def sampleToken_def array_sort_def array_slice0_def lower_0xB l)
qed

text \<open>
  Of three records, the first matches the text and is a honeypot, the second matches
  and is not, the third does not match: the second alone is kept.
\<close>

theorem search_conjoined_witness:
  "searchQuery (defaultFilters\<lparr>hideHoneypots := True, searchQuery := ''0xb''\<rparr>) \<noteq> []
   \<and> filterStage asciiLowerCase (defaultFilters\<lparr>hideHoneypots := True, searchQuery := ''0xb''\<rparr>)
        [sampleToken ''0xB'' 2 True, sampleToken ''0xBc'' 3 False, sampleToken ''0xa'' 1 False]
      = [sampleToken ''0xBc'' 3 False]
   \<and> int (length [sampleToken ''0xB'' 2 True, sampleToken ''0xBc'' 3 False,
                   sampleToken ''0xa'' 1 False])
       \<le> maxRecords (defaultFilters\<lparr>hideHoneypots := True, searchQuery := ''0xb''\<rparr>)
   \<and> set (filteredTokens asciiLowerCase
        [sampleToken ''0xB'' 2 True, sampleToken ''0xBc'' 3 False, sampleToken ''0xa'' 1 False]
        (defaultFilters\<lparr>hideHoneypots := True, searchQuery := ''0xb''\<rparr>))
      = {sampleToken ''0xBc'' 3 False}"
proof -
  have l: "asciiLowerCase ''0xb'' = ''0xb''" "asciiLowerCase ''0xBc'' = ''0xbc''"
    "asciiLowerCase ''0xa'' = ''0xa''" by code_simp+
  have h: "searchQuery (defaultFilters\<lparr>hideHoneypots := True, searchQuery := ''0xb''\<rparr>) \<noteq> []"
    by simp
  have n: "int (length [sampleToken ''0xB'' 2 True, sampleToken ''0xBc'' 3 False,
                   sampleToken ''0xa'' 1 False])
       \<le> maxRecords (defaultFilters\<lparr>hideHoneypots := True, searchQuery := ''0xb''\<rparr>)"
    by (simp add: defaultFilters_def)
  have v: "filterStage asciiLowerCase (defaultFilters\<lparr>hideHoneypots := True, searchQuery := ''0xb''\<rparr>)
        [sampleToken ''0xB'' 2 True, sampleToken ''0xBc'' 3 False, sampleToken ''0xa'' 1 False]
      = [sampleToken ''0xBc'' 3 False]"
    by (simp add: filterStage_def keepToken_def defaultFilters_def sampleToken_def
        lower_0xB l searchToken_def)
  from search_conjoined [OF h, of _ asciiLowerCase
      "[sampleToken ''0xB'' 2 True, sampleToken ''0xBc'' 3 False, sampleToken ''0xa'' 1 False]"]
    n
  have "set (filteredTokens asciiLowerCase
        [sampleToken ''0xB'' 2 True, sampleToken ''0xBc'' 3 False, sampleToken ''0xa'' 1 False]
        (defaultFilters\<lparr>hideHoneypots := True, searchQuery := ''0xb''\<rparr>))
      = set (filterStage asciiLowerCase (defaultFilters\<lparr>hideHoneypots := True, searchQuery := ''0xb''\<rparr>)
        [sampleToken ''0xB'' 2 True, sampleToken ''0xBc'' 3 False,
         sampleToken ''0xa'' 1 False])"
    by blast
  with h n v show ?thesis by simp
qed

section \<open>The sort stage\<close>

lemma key_simps:
  "sortDirectionOf ''age'' = - 1" "sortFieldOf ''age'' = ''age''"
  "sortDirectionOf ''age_asc'' = 1" "sortFieldOf ''age_asc'' = ''age''"
  by (simp_all add: sortDirectionOf_def sortFieldOf_def endsWith_def)

lemma compareTokens_age:
  "sortBy f = ''age'' \<Longrightarrow> compareTokens f a b = tokenAgeHours a - tokenAgeHours b"
  by (simp add: compareTokens_def key_simps)

lemma compareTokens_age_asc:
  "sortBy f = ''age_asc'' \<Longrightarrow> compareTokens f a b = tokenAgeHours b - tokenAgeHours a"
  by (simp add: compareTokens_def key_simps)

text \<open>
  Claim C2, amended. The age comparator is \<open>(age b - age a) * direction\<close>, with the
  operands in the opposite order to the other fields; the direction is \<open>+1\<close> when the
  sort key ends with \<^verbatim>\<open>_asc\<close> and \<open>-1\<close> otherwise. So three records with the ages
  1, 5, 2 are ordered 1, 2, 5 (youngest first) under the key \<^verbatim>\<open>age\<close> and 5, 2, 1 under
  the key \<^verbatim>\<open>age_asc\<close>.
\<close>

theorem age_sort_order:
  assumes "tokenAgeHours a = 1" "tokenAgeHours b = 5" "tokenAgeHours c = 2"
  shows "(sortBy f = ''age'' \<longrightarrow> sortStage f [a, b, c] = [a, c, b])
       \<and> (sortBy f = ''age_asc'' \<longrightarrow> sortStage f [a, b, c] = [b, c, a])
       \<and> (sortFieldOf (sortBy f) = ''age'' \<longrightarrow>
            compareTokens f x y =
              (tokenAgeHours y - tokenAgeHours x)
                * (if endsWith (sortBy f) ''_asc'' then 1 else - 1))"
  using assms
  by (simp add: sortStage_def array_sort_def compareTokens_age compareTokens_age_asc)
     (simp add: compareTokens_def sortDirectionOf_def)

text \<open>
  Claim C2, as stated, fails: under the key \<^verbatim>\<open>age\<close> the pipeline orders the ages
  1, 5, 2 as 1, 2, 5 and not as 5, 2, 1; under \<^verbatim>\<open>age_asc\<close> as 5, 2, 1 and not as
  1, 2, 5.
\<close>

theorem age_sort_counterexample:
  "map tokenAgeHours
     (filteredTokens asciiLowerCase
        [sampleToken ''0xa'' 1 False, sampleToken ''0xb'' 5 False, sampleToken ''0xc'' 2 False]
        (defaultFilters\<lparr>sortBy := ''age''\<rparr>)) = [1, 2, 5]
   \<and> map tokenAgeHours
     (filteredTokens asciiLowerCase
        [sampleToken ''0xa'' 1 False, sampleToken ''0xb'' 5 False, sampleToken ''0xc'' 2 False]
        (defaultFilters\<lparr>sortBy := ''age''\<rparr>)) \<noteq> [5, 2, 1]
   \<and> map tokenAgeHours
     (filteredTokens asciiLowerCase
        [sampleToken ''0xa'' 1 False, sampleToken ''0xb'' 5 False, sampleToken ''0xc'' 2 False]
        (defaultFilters\<lparr>sortBy := ''age_asc''\<rparr>)) = [5, 2, 1]
   \<and> map tokenAgeHours
     (filteredTokens asciiLowerCase
        [sampleToken ''0xa'' 1 False, sampleToken ''0xb'' 5 False, sampleToken ''0xc'' 2 False]
        (defaultFilters\<lparr>sortBy := ''age_asc''\<rparr>)) \<noteq> [1, 2, 5]"
  by (simp add: filteredTokens_def filterStage_def sortStage_def keepToken_def
      defaultFilters_def sampleToken_def array_sort_def array_slice0_def
      compareTokens_def key_simps)

theorem age_sort_order_witness:
  "tokenAgeHours (sampleToken ''0xa'' 1 False) = 1
   \<and> tokenAgeHours (sampleToken ''0xb'' 5 False) = 5
   \<and> tokenAgeHours (sampleToken ''0xc'' 2 False) = 2
   \<and> sortStage (defaultFilters\<lparr>sortBy := ''age''\<rparr>)
        [sampleToken ''0xa'' 1 False, sampleToken ''0xb'' 5 False, sampleToken ''0xc'' 2 False]
      = [sampleToken ''0xa'' 1 False, sampleToken ''0xc'' 2 False, sampleToken ''0xb'' 5 False]
   \<and> sortStage (defaultFilters\<lparr>sortBy := ''age_asc''\<rparr>)
        [sampleToken ''0xa'' 1 False, sampleToken ''0xb'' 5 False, sampleToken ''0xc'' 2 False]
      = [sampleToken ''0xb'' 5 False, sampleToken ''0xc'' 2 False, sampleToken ''0xa'' 1 False]
   \<and> compareTokens (defaultFilters\<lparr>sortBy := ''age''\<rparr>)
        (sampleToken ''0xa'' 1 False) (sampleToken ''0xb'' 5 False) = - 4"
proof -
  have h: "tokenAgeHours (sampleToken ''0xa'' 1 False) = 1"
    "tokenAgeHours (sampleToken ''0xb'' 5 False) = 5"
    "tokenAgeHours (sampleToken ''0xc'' 2 False) = 2"
    by (simp_all add: sampleToken_def)
  from age_sort_order [OF h, of "defaultFilters\<lparr>sortBy := ''age''\<rparr>"
        "sampleToken ''0xa'' 1 False" "sampleToken ''0xb'' 5 False"]
    age_sort_order [OF h, of "defaultFilters\<lparr>sortBy := ''age_asc''\<rparr>"]
    h
  show ?thesis by (simp add: key_simps endsWith_def)
qed

text \<open>
  The comparator of the earliest variant (part_000) orders the same records the other
  way round.
\<close>

lemma age_sort_order_part000:
  assumes "tokenAgeHours a = 1" "tokenAgeHours b = 5" "tokenAgeHours c = 2"
  shows "(sortBy f = ''age'' \<longrightarrow>
            array_sort (compareTokens_part000 f) [a, b, c] = [b, c, a])
       \<and> (sortBy f = ''age_asc'' \<longrightarrow>
            array_sort (compareTokens_part000 f) [a, b, c] = [a, c, b])"
  using assms by (simp add: array_sort_def compareTokens_part000_def key_simps)

section \<open>The cap\<close>

text \<open>
  Claim C3. With a cap that is not negative, the output of the pipeline is the first
  \<open>cap\<close> records of the sorted filter result: the sort stage permutes the filter result,
  leaves it ordered by the comparator, and the cut comes last. Hence the output is never
  what sorting a truncated filter result, or the filter result of a truncated input,
  would give, wherever that differs.
\<close>

theorem cap_after_sort:
  assumes "0 \<le> maxRecords f"
  shows "filteredTokens toLowerCase tokens f
           = take (nat (maxRecords f)) (sortStage f (filterStage toLowerCase f tokens))
       \<and> mset (sortStage f (filterStage toLowerCase f tokens))
           = mset (filterStage toLowerCase f tokens)
       \<and> sorted_wrt (\<lambda>a b. compareTokens f a b \<le> 0)
           (sortStage f (filterStage toLowerCase f tokens))
       \<and> (take (nat (maxRecords f)) (sortStage f (filterStage toLowerCase f tokens))
             \<noteq> sortStage f (take (nat (maxRecords f)) (filterStage toLowerCase f tokens))
          \<longrightarrow> filteredTokens toLowerCase tokens f
                \<noteq> sortStage f (take (nat (maxRecords f)) (filterStage toLowerCase f tokens)))
       \<and> (take (nat (maxRecords f)) (sortStage f (filterStage toLowerCase f tokens))
             \<noteq> sortStage f (filterStage toLowerCase f (take (nat (maxRecords f)) tokens))
          \<longrightarrow> filteredTokens toLowerCase tokens f
                \<noteq> sortStage f (filterStage toLowerCase f (take (nat (maxRecords f)) tokens)))"
  using assms
  by (simp add: filteredTokens_def array_slice0_nonneg sorted_sortStage)
     (simp add: sortStage_def mset_array_sort)

text \<open>
  Ages 5, 1, 2 and a cap of 2 under the default key: the output holds the ages 1, 2;
  cutting before sorting would have given 1, 5.
\<close>

theorem cap_after_sort_witness:
  "(0::int) \<le> maxRecords (defaultFilters\<lparr>maxRecords := 2\<rparr>)
   \<and> int (length [sampleToken ''0xa'' 5 False, sampleToken ''0xb'' 1 False,
                   sampleToken ''0xc'' 2 False])
       > maxRecords (defaultFilters\<lparr>maxRecords := 2\<rparr>)
   \<and> filteredTokens asciiLowerCase
        [sampleToken ''0xa'' 5 False, sampleToken ''0xb'' 1 False, sampleToken ''0xc'' 2 False]
        (defaultFilters\<lparr>maxRecords := 2\<rparr>)
      = [sampleToken ''0xb'' 1 False, sampleToken ''0xc'' 2 False]
   \<and> sortStage (defaultFilters\<lparr>maxRecords := 2\<rparr>)
        (take 2 [sampleToken ''0xa'' 5 False, sampleToken ''0xb'' 1 False,
                 sampleToken ''0xc'' 2 False])
      = [sampleToken ''0xb'' 1 False, sampleToken ''0xa'' 5 False]"
proof -
  have h: "(0::int) \<le> maxRecords (defaultFilters\<lparr>maxRecords := 2\<rparr>)" by simp
  have v: "sortStage (defaultFilters\<lparr>maxRecords := 2\<rparr>)
        (filterStage asciiLowerCase (defaultFilters\<lparr>maxRecords := 2\<rparr>)
          [sampleToken ''0xa'' 5 False, sampleToken ''0xb'' 1 False, sampleToken ''0xc'' 2 False])
      = [sampleToken ''0xb'' 1 False, sampleToken ''0xc'' 2 False, sampleToken ''0xa'' 5 False]"
    "sortStage (defaultFilters\<lparr>maxRecords := 2\<rparr>)
        (take 2 [sampleToken ''0xa'' 5 False, sampleToken ''0xb'' 1 False,
                 sampleToken ''0xc'' 2 False])
      = [sampleToken ''0xb'' 1 False, sampleToken ''0xa'' 5 False]"
    by (simp_all add: filteredTokens_def filterStage_def sortStage_def keepToken_def defaultFilters_def sampleToken_def array_sort_def array_slice0_def compareTokens_def key_simps)
  from cap_after_sort [OF h, of asciiLowerCase "[sampleToken ''0xa'' 5 False, sampleToken ''0xb'' 1 False,
      sampleToken ''0xc'' 2 False]"]
  have "filteredTokens asciiLowerCase
        [sampleToken ''0xa'' 5 False, sampleToken ''0xb'' 1 False, sampleToken ''0xc'' 2 False]
        (defaultFilters\<lparr>maxRecords := 2\<rparr>)
      = take (nat (maxRecords (defaultFilters\<lparr>maxRecords := 2\<rparr>)))
          (sortStage (defaultFilters\<lparr>maxRecords := 2\<rparr>)
            (filterStage asciiLowerCase (defaultFilters\<lparr>maxRecords := 2\<rparr>)
              [sampleToken ''0xa'' 5 False, sampleToken ''0xb'' 1 False,
               sampleToken ''0xc'' 2 False]))"
    by (rule conjunct1)
  with v h show ?thesis by simp
qed

text \<open>
  Claim C7, as stated, fails. With the cap 0 and one record that passes the filter, the
  sorted filter result is that record and the output is empty; with the cap \<open>-1\<close> and
  two records the output is the first record only.
\<close>

theorem nonpositive_cap_counterexample:
  "maxRecords (defaultFilters\<lparr>maxRecords := 0\<rparr>) \<le> 0
   \<and> sortStage (defaultFilters\<lparr>maxRecords := 0\<rparr>)
        (filterStage asciiLowerCase (defaultFilters\<lparr>maxRecords := 0\<rparr>) [sampleToken ''0xa'' 1 False])
      = [sampleToken ''0xa'' 1 False]
   \<and> filteredTokens asciiLowerCase [sampleToken ''0xa'' 1 False] (defaultFilters\<lparr>maxRecords := 0\<rparr>) = []
   \<and> maxRecords (defaultFilters\<lparr>maxRecords := - 1\<rparr>) \<le> 0
   \<and> filteredTokens asciiLowerCase [sampleToken ''0xa'' 1 False, sampleToken ''0xb'' 2 False]
        (defaultFilters\<lparr>maxRecords := - 1\<rparr>) = [sampleToken ''0xa'' 1 False]"
  by (simp add: filteredTokens_def filterStage_def sortStage_def keepToken_def
      defaultFilters_def sampleToken_def array_sort_def array_slice0_def
      compareTokens_def key_simps)

text \<open>
  Claim C7, amended. The cap is passed to \<^verbatim>\<open>slice\<close> as it is. With the cap 0 the output
  is empty. With a negative cap the output is the sorted filter result without its
  last \<open>-cap\<close> records (empty when there are no more than that). Whenever the filter
  result is not empty, the output is shorter than the sorted filter result.
\<close>

theorem nonpositive_cap:
  assumes "maxRecords f \<le> 0"
  shows "filteredTokens toLowerCase tokens f =
           (if maxRecords f = 0 then []
            else take (length (sortStage f (filterStage toLowerCase f tokens)) - nat (- maxRecords f))
                   (sortStage f (filterStage toLowerCase f tokens)))
       \<and> (filterStage toLowerCase f tokens \<noteq> []
          \<longrightarrow> length (filteredTokens toLowerCase tokens f)
                < length (sortStage f (filterStage toLowerCase f tokens)))"
proof (cases "maxRecords f = 0")
  case True
  then show ?thesis
    by (simp add: filteredTokens_def array_slice0_nonneg sortStage_def length_array_sort)
next
  case False
  with assms have neg: "maxRecords f < 0" by simp
  then have "0 < nat (- maxRecords f)" by simp
  then show ?thesis using False
    by (auto simp: filteredTokens_def array_slice0_neg [OF neg] sortStage_def
        length_array_sort)
qed

theorem nonpositive_cap_witness:
  "maxRecords (defaultFilters\<lparr>maxRecords := - 1\<rparr>) \<le> 0
   \<and> sortStage (defaultFilters\<lparr>maxRecords := - 1\<rparr>)
        (filterStage asciiLowerCase (defaultFilters\<lparr>maxRecords := - 1\<rparr>)
          [sampleToken ''0xa'' 1 False, sampleToken ''0xb'' 5 False, sampleToken ''0xc'' 2 False])
      = [sampleToken ''0xa'' 1 False, sampleToken ''0xc'' 2 False, sampleToken ''0xb'' 5 False]
   \<and> filteredTokens asciiLowerCase
        [sampleToken ''0xa'' 1 False, sampleToken ''0xb'' 5 False, sampleToken ''0xc'' 2 False]
        (defaultFilters\<lparr>maxRecords := - 1\<rparr>)
      = [sampleToken ''0xa'' 1 False, sampleToken ''0xc'' 2 False]"
proof -
  have h: "maxRecords (defaultFilters\<lparr>maxRecords := - 1\<rparr>) \<le> 0" by simp
  have v: "sortStage (defaultFilters\<lparr>maxRecords := - 1\<rparr>)
        (filterStage asciiLowerCase (defaultFilters\<lparr>maxRecords := - 1\<rparr>)
          [sampleToken ''0xa'' 1 False, sampleToken ''0xb'' 5 False, sampleToken ''0xc'' 2 False])
      = [sampleToken ''0xa'' 1 False, sampleToken ''0xc'' 2 False, sampleToken ''0xb'' 5 False]"
    by (simp add: filteredTokens_def filterStage_def sortStage_def keepToken_def defaultFilters_def sampleToken_def array_sort_def array_slice0_def compareTokens_def key_simps)
  from nonpositive_cap [OF h, of asciiLowerCase "[sampleToken ''0xa'' 1 False, sampleToken ''0xb'' 5 False,
      sampleToken ''0xc'' 2 False]"]
  have "filteredTokens asciiLowerCase
        [sampleToken ''0xa'' 1 False, sampleToken ''0xb'' 5 False, sampleToken ''0xc'' 2 False]
        (defaultFilters\<lparr>maxRecords := - 1\<rparr>)
      = (if maxRecords (defaultFilters\<lparr>maxRecords := - 1\<rparr>) = 0 then []
         else take (length (sortStage (defaultFilters\<lparr>maxRecords := - 1\<rparr>)
                 (filterStage asciiLowerCase (defaultFilters\<lparr>maxRecords := - 1\<rparr>)
                   [sampleToken ''0xa'' 1 False, sampleToken ''0xb'' 5 False,
                    sampleToken ''0xc'' 2 False]))
               - nat (- maxRecords (defaultFilters\<lparr>maxRecords := - 1\<rparr>)))
              (sortStage (defaultFilters\<lparr>maxRecords := - 1\<rparr>)
                 (filterStage asciiLowerCase (defaultFilters\<lparr>maxRecords := - 1\<rparr>)
                   [sampleToken ''0xa'' 1 False, sampleToken ''0xb'' 5 False,
                    sampleToken ''0xc'' 2 False])))"
    by (rule conjunct1)
  with v h show ?thesis by simp
qed

section \<open>Unrecognised sort keys\<close>

text \<open>
  Claim C8. When the sort key is none of \<^verbatim>\<open>age\<close>, \<^verbatim>\<open>holders\<close>, \<^verbatim>\<open>liquidity\<close>,
  \<^verbatim>\<open>safetyScore\<close>, with or without \<^verbatim>\<open>_asc\<close>, the comparator is 0 on every pair, the
  sort stage returns its input in the order it had, and the output of the pipeline is
  the filter result, capped. The pipeline is a total function with no error result:
  there is no branch that throws.
\<close>

theorem unrecognised_sort_field:
  assumes "sortBy f \<notin> {''age'', ''age_asc'', ''holders'', ''holders_asc'', ''liquidity'',
                          ''liquidity_asc'', ''safetyScore'', ''safetyScore_asc''}"
  shows "compareTokens f a b = 0
       \<and> sortStage f result = result
       \<and> filteredTokens toLowerCase tokens f
           = array_slice0 (filterStage toLowerCase f tokens) (maxRecords f)"
proof -
  have c: "compareTokens f x y = 0" for x y
    using sortFieldOf_unrecognised [OF assms] by (simp add: compareTokens_def Let_def)
  then have "sortStage f xs = xs" for xs
    unfolding sortStage_def by (intro array_sort_noop) simp
  with c show ?thesis by (simp add: filteredTokens_def)
qed

theorem unrecognised_sort_field_witness:
  "sortBy (defaultFilters\<lparr>sortBy := ''name_asc''\<rparr>)
     \<notin> {''age'', ''age_asc'', ''holders'', ''holders_asc'', ''liquidity'',
         ''liquidity_asc'', ''safetyScore'', ''safetyScore_asc''}
   \<and> compareTokens (defaultFilters\<lparr>sortBy := ''name_asc''\<rparr>)
        (sampleToken ''0xb'' 5 False) (sampleToken ''0xa'' 1 False) = 0
   \<and> filteredTokens asciiLowerCase
        [sampleToken ''0xb'' 5 False, sampleToken ''0xa'' 1 False, sampleToken ''0xc'' 2 False]
        (defaultFilters\<lparr>sortBy := ''name_asc''\<rparr>)
      = [sampleToken ''0xb'' 5 False, sampleToken ''0xa'' 1 False, sampleToken ''0xc'' 2 False]"
proof -
  have h: "sortBy (defaultFilters\<lparr>sortBy := ''name_asc''\<rparr>)
     \<notin> {''age'', ''age_asc'', ''holders'', ''holders_asc'', ''liquidity'',
         ''liquidity_asc'', ''safetyScore'', ''safetyScore_asc''}"
    by simp
  have v: "array_slice0 (filterStage asciiLowerCase (defaultFilters\<lparr>sortBy := ''name_asc''\<rparr>)
        [sampleToken ''0xb'' 5 False, sampleToken ''0xa'' 1 False, sampleToken ''0xc'' 2 False])
        (maxRecords (defaultFilters\<lparr>sortBy := ''name_asc''\<rparr>))
      = [sampleToken ''0xb'' 5 False, sampleToken ''0xa'' 1 False, sampleToken ''0xc'' 2 False]"
    by (simp add: filterStage_def keepToken_def defaultFilters_def sampleToken_def
        array_slice0_def)
  from unrecognised_sort_field [OF h, of "sampleToken ''0xb'' 5 False"
      "sampleToken ''0xa'' 1 False" "[]" asciiLowerCase
      "[sampleToken ''0xb'' 5 False, sampleToken ''0xa'' 1 False, sampleToken ''0xc'' 2 False]"]
    v h
  show ?thesis by simp
qed

section \<open>Loading the saved filters\<close>

text \<open>
  Claim C9, as stated, fails for a payload that is malformed as filter criteria and
  well-formed as JSON. The stored text \<^verbatim>\<open>{}\<close> parses to the empty object, which has
  none of the fields of the criteria; \<^verbatim>\<open>getSavedFilters\<close> returns it as it is, not the
  defaults.
\<close>

theorem saved_filters_unvalidated_counterexample:
  "getSavedFilters [''{}'' \<mapsto> JObject []] (Some ''{}'') = Parsed (JObject [])
   \<and> getSavedFilters [''{}'' \<mapsto> JObject []] (Some ''{}'') \<noteq> Defaults defaultFilters"
  by (simp add: getSavedFilters_def)

text \<open>
  Claim C9, amended. When nothing is stored, when the stored text is empty, or when
  \<^verbatim>\<open>JSON.parse\<close> throws on the stored text, \<^verbatim>\<open>getSavedFilters\<close> returns exactly the
  default criteria: both thresholds 0, every toggle off, an empty search query, the
  sort key \<^verbatim>\<open>age\<close> with the direction \<^verbatim>\<open>desc\<close>, and the cap 50. A non-empty stored text
  that \<^verbatim>\<open>JSON.parse\<close> accepts is returned as parsed, with no validation.
\<close>

theorem saved_filters_fallback:
  "getSavedFilters JSON_parse None = Defaults defaultFilters
   \<and> getSavedFilters JSON_parse (Some []) = Defaults defaultFilters
   \<and> (JSON_parse s = None \<longrightarrow> getSavedFilters JSON_parse (Some s) = Defaults defaultFilters)
   \<and> (s \<noteq> [] \<and> JSON_parse s = Some v \<longrightarrow> getSavedFilters JSON_parse (Some s) = Parsed v)
   \<and> minHolders defaultFilters = 0 \<and> minLiquidity defaultFilters = 0
   \<and> \<not> hideHoneypots defaultFilters \<and> \<not> showOnlyHoneypots defaultFilters
   \<and> \<not> hideDanger defaultFilters \<and> \<not> hideWarning defaultFilters
   \<and> \<not> showOnlySafe defaultFilters
   \<and> \<not> hideStagnantHolders defaultFilters \<and> \<not> hideStagnantLiquidity defaultFilters
   \<and> searchQuery defaultFilters = []
   \<and> sortBy defaultFilters = ''age'' \<and> sortDirection defaultFilters = ''desc''
   \<and> maxRecords defaultFilters = 50"
  by (simp add: getSavedFilters_def defaultFilters_def)

text \<open>
  A parser that throws on \<^verbatim>\<open>{bad\<close> and reads \<^verbatim>\<open>{}\<close> as the empty object: the first
  text gives the defaults, the second the empty object.
\<close>

theorem saved_filters_fallback_witness:
  "[''{}'' \<mapsto> JObject []] ''{bad'' = None
   \<and> getSavedFilters [''{}'' \<mapsto> JObject []] (Some ''{bad'') = Defaults defaultFilters
   \<and> ''{}'' \<noteq> [] \<and> [''{}'' \<mapsto> JObject []] ''{}'' = Some (JObject [])
   \<and> getSavedFilters [''{}'' \<mapsto> JObject []] (Some ''{}'') = Parsed (JObject [])
   \<and> getSavedFilters [''{}'' \<mapsto> JObject []] None = Defaults defaultFilters"
  using saved_filters_fallback [of "[''{}'' \<mapsto> JObject []]" "''{bad''"]
    saved_filters_fallback [of "[''{}'' \<mapsto> JObject []]" "''{}''" "JObject []"]
  by simp

end
